theory Spec2Isabelle
  imports Complex_Main
begin

section \<open>Python values, exceptions and the outside world\<close>

text \<open>
  The module is Python: the user record is a dict with values of several types, the
  conversation is whatever \<^verbatim>\<open>json.load\<close> returns, and every library call may raise.
  Values are a datatype, exceptions are values, and the collaborators (file system,
  clock, message sender, user-record store, model service) are an explicit world that
  every operation takes and returns. The message sender and the user-record store are
  recorded as events and return normally: their failures are theirs to handle. Time is
  a real number (the float of \<^verbatim>\<open>time.time()\<close>, idealised).
\<close>

datatype pyval =
    PyNone
  | PyBool bool
  | PyInt int
  | PyStr string
  | PyList "pyval list"
  | PyDict "(string \<times> pyval) list"

datatype exn =
    TypeError
  | ValueError
  | IndexError
  | KeyError
  | AttributeError
  | OSError
  | External string

datatype outcome = Returned | Raised exn

text \<open>Python truthiness, as used by \<^verbatim>\<open>x or []\<close> and \<^verbatim>\<open>if x:\<close>.\<close>

fun truthy :: "pyval \<Rightarrow> bool" where
  "truthy PyNone = False"
| "truthy (PyBool b) = b"
| "truthy (PyInt i) = (i \<noteq> 0)"
| "truthy (PyStr s) = (s \<noteq> [])"
| "truthy (PyList xs) = (xs \<noteq> [])"
| "truthy (PyDict kvs) = (kvs \<noteq> [])"

definition py_or :: "pyval \<Rightarrow> pyval \<Rightarrow> pyval" where
  "py_or a b = (if truthy a then a else b)"

text \<open>\<^verbatim>\<open>conversation_id + ".json"\<close>: only a str can be added to a str.\<close>

fun add_str :: "pyval \<Rightarrow> string \<Rightarrow> exn + string" where
  "add_str (PyStr s) t = Inr (s @ t)"
| "add_str _ t = Inl TypeError"

text \<open>\<^verbatim>\<open>os.path.join\<close> of two components (POSIX).\<close>

definition path_join :: "string \<Rightarrow> string \<Rightarrow> string" where
  "path_join a b =
     (if b \<noteq> [] \<and> hd b = CHR ''/'' then b
      else if a = [] \<or> last a = CHR ''/'' then a @ b
      else a @ ''/'' @ b)"

text \<open>\<^verbatim>\<open>dict.get(key)\<close>: None when the key is absent.\<close>

type_synonym user = "string \<rightharpoonup> pyval"

definition dict_get :: "user \<Rightarrow> string \<Rightarrow> pyval" where
  "dict_get d k = (case d k of None \<Rightarrow> PyNone | Some v \<Rightarrow> v)"

text \<open>
  A file holds text. \<open>Doc v\<close> is text that \<^verbatim>\<open>json.load\<close> parses to \<open>v\<close> (what
  \<^verbatim>\<open>json.dump\<close> of \<open>v\<close> writes); \<open>Unreadable e\<close> is a file on which opening, decoding
  or parsing raises \<open>e\<close> (garbage, a truncated write, a directory).
\<close>

datatype file_text = Doc pyval | Unreadable exn

datatype write_outcome = Write_ok | Open_fails exn | Dump_fails exn

datatype part = Text_part string | Inline_data string string

record content =
  role :: string
  parts :: "part list"

datatype request_body = Prompt_parts "part list" | Prompt_contents "content list"

datatype event =
    Fs_exists string
  | Fs_read string
  | Fs_write string
  | Fs_remove string
  | Sleep real
  | Http_get string
  | Generate_content string request_body
  | Send_message string bool
  | Save_user user

datatype level = INFO | WARNING | ERROR

datatype log_piece = Lit string | Val pyval | Num real | Exc exn

datatype log_record = Log level "log_piece list"

record world =
  files :: "string \<rightharpoonup> file_text"
  write_fault :: "string \<Rightarrow> write_outcome"
  remove_fault :: "string \<Rightarrow> exn option"
  clock :: real
  http_proxy :: "string option"
  effects :: "event list"
  logged :: "log_record list"

definition emit :: "event \<Rightarrow> world \<Rightarrow> world" where
  "emit e w = w\<lparr>effects := effects w @ [e]\<rparr>"

definition logging :: "level \<Rightarrow> log_piece list \<Rightarrow> world \<Rightarrow> world" where
  "logging l ps w = w\<lparr>logged := logged w @ [Log l ps]\<rparr>"

section \<open>The conversation store\<close>

text \<open>
  \<^verbatim>\<open>_load_conversation\<close>: None for a None identifier, for a missing file and for
  any exception (a non-str identifier, an unreadable or unparsable file); otherwise the
  parsed document.
\<close>

definition load_conversation :: "world \<Rightarrow> string \<Rightarrow> pyval \<Rightarrow> pyval \<times> world" where
  "load_conversation w0 dir cid =
     (let w = logging INFO [Lit ''Loading conversation '', Val cid] w0 in
      if cid = PyNone then
        (PyNone, logging INFO [Lit ''conversation_id is None. Skipping loading''] w)
      else case add_str cid ''.json'' of
        Inl e \<Rightarrow> (PyNone, logging WARNING [Lit ''Error loading conversation '', Val cid, Exc e] w)
      | Inr name \<Rightarrow>
          (let f = path_join dir name; w1 = emit (Fs_exists f) w in
           case files w1 f of
             None \<Rightarrow> (PyNone, logging WARNING [Lit ''File '', Lit f, Lit '' not exists!''] w1)
           | Some (Doc v) \<Rightarrow> (v, emit (Fs_read f) w1)
           | Some (Unreadable e) \<Rightarrow>
               (PyNone, logging WARNING [Lit ''Error loading conversation '', Val cid, Exc e]
                          (emit (Fs_read f) w1))))"

text \<open>Line 188: \<^verbatim>\<open>_load_conversation(conversations_dir, conversation_id) or []\<close>.\<close>

definition load_or_empty :: "world \<Rightarrow> string \<Rightarrow> pyval \<Rightarrow> pyval \<times> world" where
  "load_or_empty w dir cid =
     (case load_conversation w dir cid of (v, w') \<Rightarrow> (py_or v (PyList []), w'))"

text \<open>
  \<^verbatim>\<open>_save_conversation\<close>: False for a None identifier and for any exception; a
  failing \<^verbatim>\<open>json.dump\<close> leaves the file opened with mode "w" behind, unreadable.
\<close>

definition save_conversation :: "world \<Rightarrow> string \<Rightarrow> pyval \<Rightarrow> pyval \<Rightarrow> bool \<times> world" where
  "save_conversation w0 dir cid conversation =
     (let w = logging INFO [Lit ''Saving conversation '', Val cid] w0 in
      if cid = PyNone then
        (False, logging INFO [Lit ''conversation_id is None. Skipping saving''] w)
      else case add_str cid ''.json'' of
        Inl e \<Rightarrow> (False, logging ERROR [Lit ''Error saving conversation '', Val cid, Exc e] w)
      | Inr name \<Rightarrow>
          (let f = path_join dir name; w1 = emit (Fs_write f) w in
           case write_fault w1 f of
             Write_ok \<Rightarrow> (True, w1\<lparr>files := (files w1)(f \<mapsto> Doc conversation)\<rparr>)
           | Open_fails e \<Rightarrow>
               (False, logging ERROR [Lit ''Error saving conversation '', Val cid, Exc e] w1)
           | Dump_fails e \<Rightarrow>
               (False, logging ERROR [Lit ''Error saving conversation '', Val cid, Exc e]
                         (w1\<lparr>files := (files w1)(f \<mapsto> Unreadable e)\<rparr>))))"

text \<open>
  \<^verbatim>\<open>_delete_conversation\<close>: True when the file is absent or was removed, False on
  any exception (a non-str identifier, a failing \<^verbatim>\<open>os.remove\<close>).
\<close>

definition delete_conversation :: "world \<Rightarrow> string \<Rightarrow> pyval \<Rightarrow> bool \<times> world" where
  "delete_conversation w0 dir cid =
     (let w = logging INFO [Lit ''Deleting conversation '', Val cid] w0 in
      case add_str cid ''.json'' of
        Inl e \<Rightarrow>
          (False, logging ERROR
             [Lit ''Error removing conversation file for conversation '', Val cid, Exc e] w)
      | Inr name \<Rightarrow>
          (let f = path_join dir name; w1 = emit (Fs_exists f) w in
           if files w1 f \<noteq> None then
             (let w2 = emit (Fs_remove f)
                         (logging INFO [Lit ''Deleting '', Lit f, Lit '' file''] w1) in
              case remove_fault w2 f of
                None \<Rightarrow> (True, w2\<lparr>files := (files w2)(f := None)\<rparr>)
              | Some e \<Rightarrow>
                  (False, logging ERROR
                     [Lit ''Error removing conversation file for conversation '', Val cid, Exc e]
                     w2))
           else (True, w1)))"

section \<open>The module, the request and the environment of one call\<close>

text \<open>
  The fields of \<^verbatim>\<open>GoogleAIModule\<close>: the three shared scalars, \<^verbatim>\<open>_enabled\<close>, and the
  configuration entries the code reads (\<^verbatim>\<open>config[config_key]["cooldown_seconds"]\<close>,
  \<^verbatim>\<open>config["files"]["conversations_dir"]\<close>, \<^verbatim>\<open>config[config_key]["proxy"]\<close>,
  \<^verbatim>\<open>config["modules"][config_key]\<close>) and the localized message table.
\<close>

record module =
  config_key :: string
  cooldown_seconds :: real
  conversations_dir :: string
  proxy_config :: pyval
  module_config :: pyval
  messages :: "(string \<rightharpoonup> string) list"
  cancel_requested :: bool
  processing_flag :: bool
  last_request_time :: real
  enabled :: bool

record request_response_container =
  user :: user
  request :: string
  image_url :: "string option"
  response :: string
  error :: bool

text \<open>
  What the model service answers to one \<^verbatim>\<open>generate_content(..., stream=True)\<close>: the
  chunks in order, each with a flag telling whether the dispatcher set
  \<^verbatim>\<open>cancel_requested\<close> while that chunk was awaited; how the iteration ends (a flag
  for the last wait, and the exception if the iteration raises instead of stopping);
  and \<^verbatim>\<open>response.parts\<close> of the exhausted stream.
\<close>

record response_stream =
  chunks :: "(bool \<times> part list) list"
  cancel_at_end :: bool
  stream_error :: "exn option"
  final_parts :: "exn + part list"

text \<open>
  Everything else one call of \<^verbatim>\<open>process_request\<close> gets from outside: how far the clock
  moves between its reads, the identifier \<^verbatim>\<open>uuid.uuid4()\<close> draws, what
  \<^verbatim>\<open>requests.get\<close> and \<^verbatim>\<open>generate_content\<close> give, and the library
  functions \<^verbatim>\<open>Content.to_json\<close>, \<^verbatim>\<open>Content.from_json\<close> and \<^verbatim>\<open>str.format\<close>
  (\<open>str_format e t a\<close> is \<^verbatim>\<open>t.format(a)\<close>: the formatted text, or the exception).
\<close>

record env =
  lag_wait :: real
  lag_sleep :: real
  oversleep :: real
  lag_stamp :: real
  uuid4 :: string
  download :: "exn + string"
  to_json :: "content \<Rightarrow> string"
  from_json :: "pyval \<Rightarrow> exn + content"
  str_format :: "string \<Rightarrow> string \<Rightarrow> exn + string"
  generate :: "exn + response_stream"

definition conversation_key :: "module \<Rightarrow> string" where
  "conversation_key m = config_key m @ ''_conversation_id''"

definition has_image :: "request_response_container \<Rightarrow> bool" where
  "has_image r = (case image_url r of None \<Rightarrow> False | Some u \<Rightarrow> u \<noteq> [])"

definition tick :: "real \<Rightarrow> world \<Rightarrow> world" where
  "tick d w = w\<lparr>clock := clock w + d\<rparr>"

subsection \<open>The localized error message\<close>

text \<open>
  \<^verbatim>\<open>self.messages[lang]\<close>: a list subscript takes an int (or a bool, which is one);
  an index below zero is taken from the end of the list.
\<close>

fun py_index :: "'a list \<Rightarrow> pyval \<Rightarrow> exn + 'a" where
  "py_index xs (PyInt i) =
     (if 0 \<le> i \<and> i < int (length xs) then Inr (xs ! nat i)
      else if i < 0 \<and> - int (length xs) \<le> i then Inr (xs ! nat (int (length xs) + i))
      else Inl IndexError)"
| "py_index xs (PyBool b) =
     (if (if b then 1 else 0) < length xs then Inr (xs ! (if b then 1 else 0)) else Inl IndexError)"
| "py_index xs _ = Inl TypeError"

text \<open>\<^verbatim>\<open>.replace("\\n", "\n")\<close>: a backslash followed by n becomes a line feed.\<close>

fun replace_newlines :: "string \<Rightarrow> string" where
  "replace_newlines (c # d # cs) =
     (if c = CHR 0x5C \<and> d = CHR ''n'' then CHR 0x0A # replace_newlines cs
      else c # replace_newlines (d # cs))"
| "replace_newlines cs = cs"

text \<open>
  Lines 144 to 146:
  \<^verbatim>\<open>self.messages[lang]["response_error"].replace("\\n", "\n").format("Google AI module not initialized!")\<close>.
\<close>

definition localized_error :: "module \<Rightarrow> env \<Rightarrow> pyval \<Rightarrow> exn + string" where
  "localized_error m e lang =
     (case py_index (messages m) lang of
        Inl ex \<Rightarrow> Inl ex
      | Inr d \<Rightarrow>
          (case d ''response_error'' of
             None \<Rightarrow> Inl KeyError
           | Some t \<Rightarrow> str_format e (replace_newlines t) ''Google AI module not initialized!''))"

section \<open>Initialization and clearing\<close>


text \<open>\<^verbatim>\<open>clear_conversation_for_user\<close>; the user dict is mutated, so it is returned.\<close>

definition clear_conversation_for_user :: "module \<Rightarrow> user \<Rightarrow> world \<Rightarrow> user \<times> world" where
  "clear_conversation_for_user m u w =
     (let conversation_id = dict_get u (conversation_key m) in
      if conversation_id = PyNone then (u, w)
      else case delete_conversation w (conversations_dir m) conversation_id of
        (deleted, w1) \<Rightarrow>
          (let u1 = u(conversation_key m \<mapsto> PyNone)
           in (u1, emit (Save_user u1) w1)))"

section \<open>Processing one request\<close>

subsection \<open>Cool down (lines 155 to 164)\<close>

text \<open>
  The clock is read once in the condition, once for the logged \<^verbatim>\<open>time_to_wait\<close>, once
  in the argument of \<^verbatim>\<open>time.sleep\<close> and once for the new timestamp, and it moves
  between the reads. \<^verbatim>\<open>time.sleep\<close> raises ValueError on a negative argument and
  otherwise returns after at least that long.
\<close>

definition cool_down :: "module \<Rightarrow> env \<Rightarrow> world \<Rightarrow> exn option \<times> module \<times> world" where
  "cool_down m e w =
     (if clock w - last_request_time m \<le> cooldown_seconds m then
        (let w1 = tick (lag_wait e) w;
             time_to_wait = cooldown_seconds m - (clock w1 - last_request_time m);
             w2 = logging WARNING
                    [Lit ''Too frequent requests. Waiting '', Num time_to_wait, Lit '' seconds...'']
                    w1;
             w3 = tick (lag_sleep e) w2;
             secs = last_request_time m + cooldown_seconds m - clock w3
         in if secs < 0 then (Some ValueError, m, w3)
            else (let w4 = tick (secs + oversleep e) (emit (Sleep secs) w3);
                      w5 = tick (lag_stamp e) w4
                  in (None, m\<lparr>last_request_time := clock w5\<rparr>, w5)))
      else (let w5 = tick (lag_stamp e) w
            in (None, m\<lparr>last_request_time := clock w5\<rparr>, w5)))"

subsection \<open>Asking the model (lines 166 to 199)\<close>

fun py_append :: "pyval \<Rightarrow> pyval \<Rightarrow> exn + pyval" where
  "py_append (PyList xs) x = Inr (PyList (xs @ [x]))"
| "py_append _ x = Inl AttributeError"

text \<open>Iterating a Python value, as the list comprehension of line 197 does.\<close>

fun py_iter :: "pyval \<Rightarrow> exn + pyval list" where
  "py_iter (PyList xs) = Inr xs"
| "py_iter (PyStr s) = Inr (map (\<lambda>c. PyStr [c]) s)"
| "py_iter (PyDict kvs) = Inr (map (\<lambda>kv. PyStr (fst kv)) kvs)"
| "py_iter _ = Inl TypeError"

fun map_exn :: "('a \<Rightarrow> exn + 'b) \<Rightarrow> 'a list \<Rightarrow> exn + 'b list" where
  "map_exn f [] = Inr []"
| "map_exn f (x # xs) =
     (case f x of
        Inl e \<Rightarrow> Inl e
      | Inr y \<Rightarrow> (case map_exn f xs of Inl e \<Rightarrow> Inl e | Inr ys \<Rightarrow> Inr (y # ys)))"

definition ask ::
  "module \<Rightarrow> env \<Rightarrow> request_response_container \<Rightarrow> world \<Rightarrow> pyval
     \<Rightarrow> (exn + response_stream \<times> pyval \<times> pyval) \<times> world" where
  "ask m e r w conversation_id =
     (if has_image r then
        (let w1 = emit (Http_get (case image_url r of Some u \<Rightarrow> u | None \<Rightarrow> []))
                    (logging INFO [Lit ''Downloading user image''] w)
         in case download e of
              Inl ex \<Rightarrow> (Inl ex, w1)
            | Inr img \<Rightarrow>
                (let w2 = emit (Generate_content ''gemini-pro-vision''
                                  (Prompt_parts [Inline_data ''image/jpeg'' img,
                                                 Text_part (request r)]))
                            (logging INFO [Lit ''Asking Gemini...''] w1)
                 in case generate e of
                      Inl ex \<Rightarrow> (Inl ex, w2)
                    | Inr s \<Rightarrow> (Inr (s, PyList [], conversation_id), w2)))
      else
        (case load_or_empty w (conversations_dir m) conversation_id of
           (loaded, w1) \<Rightarrow>
             (let cid = (if conversation_id = PyNone then PyStr (uuid4 e) else conversation_id)
              in case py_append loaded
                        (PyStr (to_json e \<lparr>role = ''user'', parts = [Text_part (request r)]\<rparr>)) of
                   Inl ex \<Rightarrow> (Inl ex, w1)
                 | Inr conversation \<Rightarrow>
                     (let w2 = logging INFO [Lit ''Asking Gemini...''] w1
                      in case py_iter conversation of
                           Inl ex \<Rightarrow> (Inl ex, w2)
                         | Inr items \<Rightarrow>
                             (case map_exn (from_json e) items of
                                Inl ex \<Rightarrow> (Inl ex, w2)
                              | Inr contents \<Rightarrow>
                                  (let w3 = emit (Generate_content ''gemini-pro''
                                                    (Prompt_contents contents)) w2
                                   in case generate e of
                                        Inl ex \<Rightarrow> (Inl ex, w3)
                                      | Inr s \<Rightarrow> (Inr (s, conversation, cid), w3)))))))"

subsection \<open>The chunk loop (lines 201 to 210)\<close>

text \<open>
  \<^verbatim>\<open>len(chunk.parts) < 1 or "text" not in chunk.parts[0]\<close>: a chunk counts only by
  its first part, and only when that part is text.
\<close>

fun chunk_text :: "part list \<Rightarrow> string option" where
  "chunk_text (Text_part t # ps) = Some t"
| "chunk_text ps = None"

datatype loop_exit = Broke | Exhausted

text \<open>
  The loop over the chunks that arrive. The number returned counts the chunks that got
  past the cancellation check (skipped or appended).
\<close>

fun chunk_loop ::
  "module \<Rightarrow> request_response_container \<Rightarrow> world \<Rightarrow> (bool \<times> part list) list
     \<Rightarrow> loop_exit \<times> nat \<times> module \<times> request_response_container \<times> world" where
  "chunk_loop m r w [] = (Exhausted, 0, m, r, w)"
| "chunk_loop m r w (c # cs) =
     (let m1 = m\<lparr>cancel_requested := cancel_requested m \<or> fst c\<rparr> in
      if cancel_requested m1 then (Broke, 0, m1, r, w)
      else case chunk_text (snd c) of
        None \<Rightarrow>
          (case chunk_loop m1 r w cs of (x, n, rest) \<Rightarrow> (x, Suc n, rest))
      | Some t \<Rightarrow>
          (let r1 = r\<lparr>response := response r @ t\<rparr>;
               w1 = emit (Send_message (response r1) False) w
           in case chunk_loop m1 r1 w1 cs of (x, n, rest) \<Rightarrow> (x, Suc n, rest)))"

text \<open>The whole \<^verbatim>\<open>for\<close> statement: the loop, then the end of the iteration.\<close>

definition consume ::
  "module \<Rightarrow> request_response_container \<Rightarrow> world \<Rightarrow> response_stream
     \<Rightarrow> exn option \<times> nat \<times> module \<times> request_response_container \<times> world" where
  "consume m r w s =
     (case chunk_loop m r w (chunks s) of
        (Broke, n, m1, r1, w1) \<Rightarrow> (None, n, m1, r1, w1)
      | (Exhausted, n, m1, r1, w1) \<Rightarrow>
          (stream_error s, n,
           m1\<lparr>cancel_requested := cancel_requested m1 \<or> cancel_at_end s\<rparr>, r1, w1))"

subsection \<open>After the loop (lines 212 to 220)\<close>

definition after_loop ::
  "module \<Rightarrow> env \<Rightarrow> request_response_container \<Rightarrow> world \<Rightarrow> response_stream \<Rightarrow> pyval \<Rightarrow> pyval
     \<Rightarrow> exn option \<times> request_response_container \<times> world" where
  "after_loop m e r w s conversation conversation_id =
     (if cancel_requested m then (None, r, logging INFO [Lit ''Gemini module canceled''] w)
      else if \<not> has_image r then
        (case final_parts s of
           Inl ex \<Rightarrow> (Some ex, r, w)
         | Inr ps \<Rightarrow>
             (case py_append conversation (PyStr (to_json e \<lparr>role = ''model'', parts = ps\<rparr>)) of
                Inl ex \<Rightarrow> (Some ex, r, w)
              | Inr conversation1 \<Rightarrow>
                  (case save_conversation w (conversations_dir m) conversation_id conversation1 of
                     (saved, w1) \<Rightarrow>
                       (let cid = (if \<not> saved then PyNone else conversation_id);
                            r1 = r\<lparr>user := (user r)(conversation_key m \<mapsto> cid)\<rparr>
                        in (None, r1, emit (Save_user (user r1)) w1)))))
      else (None, r, w))"

subsection \<open>\<^verbatim>\<open>process_request\<close>\<close>

text \<open>The body of the \<^verbatim>\<open>try\<close> block: the exception it ends with, if any, and the state then.\<close>

definition try_body ::
  "module \<Rightarrow> env \<Rightarrow> request_response_container \<Rightarrow> world \<Rightarrow> pyval
     \<Rightarrow> exn option \<times> module \<times> request_response_container \<times> world" where
  "try_body m0 e r w conversation_id =
     (let m = m0\<lparr>processing_flag := True\<rparr> in
      case cool_down m e w of
        (Some ex, m1, w1) \<Rightarrow> (Some ex, m1, r, w1)
      | (None, m1, w1) \<Rightarrow>
          (case ask m1 e r w1 conversation_id of
             (Inl ex, w2) \<Rightarrow> (Some ex, m1, r, w2)
           | (Inr (s, conversation, cid), w2) \<Rightarrow>
               (case consume m1 r w2 s of
                  (Some ex, n, m2, r2, w3) \<Rightarrow> (Some ex, m2, r2, w3)
                | (None, n, m2, r2, w3) \<Rightarrow>
                    (case after_loop m2 e r2 w3 s conversation cid of
                       (x, r3, w4) \<Rightarrow> (x, m2, r3, w4)))))"

text \<open>
  \<^verbatim>\<open>process_request\<close>: the rejection of a module that is not enabled; otherwise the
  \<^verbatim>\<open>try\<close> block, with \<^verbatim>\<open>except\<close> (disable and raise again), \<^verbatim>\<open>finally\<close> (clear
  the processing flag) and the final message of line 230, reached only without an
  exception.
\<close>

definition process_request ::
  "module \<Rightarrow> env \<Rightarrow> request_response_container \<Rightarrow> world
     \<Rightarrow> outcome \<times> module \<times> request_response_container \<times> world" where
  "process_request m e r w =
     (let lang = (case user r ''lang'' of None \<Rightarrow> PyInt 0 | Some v \<Rightarrow> v);
          conversation_id = dict_get (user r) (conversation_key m)
      in if \<not> enabled m then
           (let w1 = logging ERROR [Lit ''Google AI module not initialized!''] w
            in case localized_error m e lang of
                 Inl ex \<Rightarrow> (Raised ex, m, r, w1)
               | Inr txt \<Rightarrow>
                   (Returned, m\<lparr>processing_flag := False\<rparr>,
                    r\<lparr>response := txt, error := True\<rparr>, w1))
         else
           (case try_body m e r w conversation_id of
              (Some ex, m1, r1, w1) \<Rightarrow>
                (Raised ex, m1\<lparr>enabled := False, processing_flag := False\<rparr>, r1, w1)
            | (None, m1, r1, w1) \<Rightarrow>
                (Returned, m1\<lparr>processing_flag := False\<rparr>, r1,
                 emit (Send_message (response r1) True) w1)))"

section \<open>Vocabulary for the statements\<close>

text \<open>
  The effects of a call are the events it appends to the world. Statements about what a
  call does not do (no file operation, no model call, no final message) are statements
  about the kinds of the events it appends.
\<close>

datatype kind =
  File_probe | File_write | File_remove | Sleeping | Service_call | Partial_message
  | Final_message | User_save

fun kind_of :: "event \<Rightarrow> kind" where
  "kind_of (Fs_exists f) = File_probe"
| "kind_of (Fs_read f) = File_probe"
| "kind_of (Fs_write f) = File_write"
| "kind_of (Fs_remove f) = File_remove"
| "kind_of (Sleep d) = Sleeping"
| "kind_of (Http_get u) = Service_call"
| "kind_of (Generate_content n b) = Service_call"
| "kind_of (Send_message t fin) = (if fin then Final_message else Partial_message)"
| "kind_of (Save_user u) = User_save"


definition grows :: "kind set \<Rightarrow> world \<Rightarrow> world \<Rightarrow> bool" where
  "grows K w w' \<longleftrightarrow> (\<exists>evs. effects w' = effects w @ evs \<and> (\<forall>ev\<in>set evs. kind_of ev \<in> K))"



section \<open>Sample inputs\<close>

text \<open>
  A configured module, an empty world at time 100, a service that streams three chunks,
  and a text request of a user without a session.
\<close>

definition world0 :: world where
  "world0 = \<lparr>files = Map.empty, write_fault = (\<lambda>f. Write_ok), remove_fault = (\<lambda>f. None),
     clock = 100, http_proxy = None, effects = [], logged = []\<rparr>"

definition user1 :: user where
  "user1 = [''lang'' \<mapsto> PyInt 0, ''gemini_conversation_id'' \<mapsto> PyStr ''abc'']"

definition world1 :: world where
  "world1 = world0\<lparr>files := [''conversations/abc.json'' \<mapsto> Doc (PyList [PyStr ''user:Hi''])]\<rparr>"

definition module0 :: module where
  "module0 = \<lparr>config_key = ''gemini'', cooldown_seconds = 5, conversations_dir = ''conversations'',
     proxy_config = PyStr ''auto'', module_config = PyBool True,
     messages = [[''response_error'' \<mapsto> ''Error: {}'' @ [CHR 0x5C, CHR ''n''] @ ''Try again''],
                 [''response_error'' \<mapsto> ''Fehler: {}'' @ [CHR 0x5C, CHR ''n''] @ ''Bitte erneut versuchen'']],
     cancel_requested = False, processing_flag = False, last_request_time = 0, enabled = True\<rparr>"

definition sample_to_json :: "content \<Rightarrow> string" where
  "sample_to_json c =
     role c @ '':'' @ concat (map (\<lambda>p. case p of Text_part t \<Rightarrow> t | Inline_data mt d \<Rightarrow> []) (parts c))"

definition sample_from_json :: "pyval \<Rightarrow> exn + content" where
  "sample_from_json v =
     (case v of
        PyStr s \<Rightarrow> Inr \<lparr>role = takeWhile (\<lambda>c. c \<noteq> CHR '':'') s,
                        parts = [Text_part (drop 1 (dropWhile (\<lambda>c. c \<noteq> CHR '':'') s))]\<rparr>
      | _ \<Rightarrow> Inl TypeError)"

text \<open>
  A formatter for the sample inputs: it puts the argument in place of the first
  \<^verbatim>\<open>{}\<close>, as \<^verbatim>\<open>str.format\<close> does for a template with one such field and no other
  brace.
\<close>

fun sample_format :: "string \<Rightarrow> string \<Rightarrow> exn + string" where
  "sample_format (c # d # cs) a =
     (if c = CHR ''{'' \<and> d = CHR ''}'' then Inr (a @ cs)
      else map_sum id ((#) c) (sample_format (d # cs) a))"
| "sample_format cs a = Inr cs"

definition stream0 :: response_stream where
  "stream0 = \<lparr>chunks = [(False, [Text_part ''Hel'']), (False, []), (False, [Text_part ''lo''])],
     cancel_at_end = False, stream_error = None, final_parts = Inr [Text_part ''Hello'']\<rparr>"

definition env0 :: env where
  "env0 = \<lparr>lag_wait = 0, lag_sleep = 0, oversleep = 0, lag_stamp = 0, uuid4 = ''uuid-1'',
     download = Inr ''jpeg'', to_json = sample_to_json, from_json = sample_from_json,
     str_format = sample_format,
     generate = Inr stream0\<rparr>"

definition request0 :: request_response_container where
  "request0 = \<lparr>user = [''lang'' \<mapsto> PyInt 0], request = ''Hi'', image_url = None,
     response = [], error = False\<rparr>"

text \<open>
  A model service that is down, and an image request of a user with a stored session.
\<close>

definition env_down :: env where
  "env_down = env0\<lparr>generate := Inl (External ''503 Service Unavailable'')\<rparr>"

definition request_image :: request_response_container where
  "request_image = \<lparr>user = user1, request = ''What is this?'',
     image_url = Some ''http://example.org/cat.jpg'', response = [], error = False\<rparr>"

text \<open>
  A module that is not enabled while its processing flag is set, a request of a user
  whose language is the second of the table, and one whose language the table lacks.
\<close>

definition module_off :: module where
  "module_off = module0\<lparr>enabled := False, processing_flag := True\<rparr>"

definition request_second :: request_response_container where
  "request_second = request0\<lparr>user := [''lang'' \<mapsto> PyInt 1]\<rparr>"

definition request_third :: request_response_container where
  "request_third = request0\<lparr>user := [''lang'' \<mapsto> PyInt 2]\<rparr>"

text \<open>
  A stream during which the dispatcher sets the cancellation flag while the third chunk
  is awaited; a stream that breaks after its last chunk; a file system that refuses to
  open files for writing; a module whose cancellation flag is already set; an image
  download that times out.
\<close>

definition stream_cancel :: response_stream where
  "stream_cancel = stream0\<lparr>chunks := [(False, [Text_part ''Hel'']), (False, []), (True, [Text_part ''lo''])]\<rparr>"

definition env_cancel :: env where
  "env_cancel = env0\<lparr>generate := Inr stream_cancel\<rparr>"

definition env_broken :: env where
  "env_broken = env0\<lparr>generate := Inr (stream0\<lparr>stream_error := Some (External ''Connection reset'')\<rparr>)\<rparr>"

definition world_readonly :: world where
  "world_readonly = world0\<lparr>write_fault := (\<lambda>f. Open_fails OSError)\<rparr>"

definition module_cancelled :: module where
  "module_cancelled = module0\<lparr>cancel_requested := True\<rparr>"

definition env_offline :: env where
  "env_offline = env0\<lparr>download := Inl (External ''Read timed out'')\<rparr>"

text \<open>
  A module whose previous request was 4.999 seconds ago, with a cooldown of 5 seconds,
  and a clock that moves one millisecond between the reads of the cool-down.
\<close>

definition module_recent :: module where
  "module_recent = module0\<lparr>last_request_time := 95 + 1 / 1000\<rparr>"

definition env_lag :: env where
  "env_lag = env0\<lparr>lag_wait := 1 / 1000, lag_sleep := 1 / 1000\<rparr>"


section \<open>Basic facts\<close>

lemma emit_fields [simp]:
  "files (emit ev w) = files w" "write_fault (emit ev w) = write_fault w"
  "remove_fault (emit ev w) = remove_fault w" "clock (emit ev w) = clock w"
  "http_proxy (emit ev w) = http_proxy w" "logged (emit ev w) = logged w"
  "effects (emit ev w) = effects w @ [ev]"
  by (simp_all add: emit_def)

lemma logging_fields [simp]:
  "files (logging l ps w) = files w" "write_fault (logging l ps w) = write_fault w"
  "remove_fault (logging l ps w) = remove_fault w" "clock (logging l ps w) = clock w"
  "http_proxy (logging l ps w) = http_proxy w" "effects (logging l ps w) = effects w"
  "logged (logging l ps w) = logged w @ [Log l ps]"
  by (simp_all add: logging_def)

lemma tick_fields [simp]:
  "files (tick d w) = files w" "write_fault (tick d w) = write_fault w"
  "remove_fault (tick d w) = remove_fault w" "clock (tick d w) = clock w + d"
  "http_proxy (tick d w) = http_proxy w" "effects (tick d w) = effects w"
  "logged (tick d w) = logged w"
  by (simp_all add: tick_def)

lemma grows_refl [simp]: "grows K w w"
  by (simp add: grows_def)







lemmas sample_defs = world0_def world1_def user1_def module0_def env0_def request0_def stream0_def
  sample_to_json_def sample_from_json_def env_down_def request_image_def
  stream_cancel_def env_cancel_def env_broken_def world_readonly_def module_cancelled_def
  env_offline_def module_recent_def env_lag_def
  module_off_def request_second_def request_third_def



section \<open>The conversation store\<close>

lemma add_str_Inr: "add_str cid t = Inr name \<longleftrightarrow> (\<exists>s. cid = PyStr s \<and> name = s @ t)"
  by (cases cid) auto

lemma save_True:
  assumes "save_conversation w dir cid c = (True, w')"
  shows "\<exists>s. cid = PyStr s \<and> files w' = (files w)(path_join dir (s @ ''.json'') \<mapsto> Doc c)"
  using assms
  by (cases cid) (auto simp: save_conversation_def Let_def split: if_splits write_outcome.splits)

lemma load_Doc:
  "files w (path_join dir (s @ ''.json'')) = Some (Doc v) \<Longrightarrow> fst (load_conversation w dir (PyStr s)) = v"
  by (simp add: load_conversation_def Let_def)

lemma fst_load_or_empty:
  "fst (load_or_empty w dir cid) = py_or (fst (load_conversation w dir cid)) (PyList [])"
  by (simp add: load_or_empty_def split: prod.splits)

text \<open>
  Claim C5. A transcript (a list of turns) that \<^verbatim>\<open>_save_conversation\<close> reports saved
  under an identifier is what loading by that identifier gives back, equal and in order.
  Loading gives the empty transcript when the identifier is absent from the user record
  or None, when the file does not exist, and when reading or parsing it raises. The
  loader is a total function returning a value: none of these cases raises.
\<close>

theorem store_round_trip:
  "(save_conversation w dir cid (PyList turns) = (True, w')
      \<longrightarrow> fst (load_or_empty w' dir cid) = PyList turns)
   \<and> ((u k = None \<or> u k = Some PyNone)
      \<longrightarrow> fst (load_or_empty w dir (dict_get u k)) = PyList [])
   \<and> (files w (path_join dir (s @ ''.json'')) = None
      \<longrightarrow> fst (load_or_empty w dir (PyStr s)) = PyList [])
   \<and> (files w (path_join dir (s @ ''.json'')) = Some (Unreadable ex)
      \<longrightarrow> fst (load_or_empty w dir (PyStr s)) = PyList [])"
proof (intro conjI impI)
  assume a: "save_conversation w dir cid (PyList turns) = (True, w')"
  then obtain s where s: "cid = PyStr s"
    "files w' = (files w)(path_join dir (s @ ''.json'') \<mapsto> Doc (PyList turns))"
    using save_True by blast
  then have "fst (load_conversation w' dir cid) = PyList turns"
    by (simp add: load_Doc)
  then show "fst (load_or_empty w' dir cid) = PyList turns"
    by (cases turns) (simp_all add: fst_load_or_empty py_or_def)
next
  assume "u k = None \<or> u k = Some PyNone"
  then have "dict_get u k = PyNone" by (auto simp: dict_get_def)
  then show "fst (load_or_empty w dir (dict_get u k)) = PyList []"
    by (simp add: fst_load_or_empty load_conversation_def py_or_def Let_def)
next
  assume "files w (path_join dir (s @ ''.json'')) = None"
  then show "fst (load_or_empty w dir (PyStr s)) = PyList []"
    by (simp add: fst_load_or_empty load_conversation_def py_or_def Let_def)
next
  assume "files w (path_join dir (s @ ''.json'')) = Some (Unreadable ex)"
  then show "fst (load_or_empty w dir (PyStr s)) = PyList []"
    by (simp add: fst_load_or_empty load_conversation_def py_or_def Let_def)
qed

theorem store_round_trip_witness:
  "save_conversation world0 ''conversations'' (PyStr ''abc'') (PyList [PyStr ''hello''])
     = (True, snd (save_conversation world0 ''conversations'' (PyStr ''abc'') (PyList [PyStr ''hello''])))
   \<and> fst (load_or_empty
        (snd (save_conversation world0 ''conversations'' (PyStr ''abc'') (PyList [PyStr ''hello''])))
        ''conversations'' (PyStr ''abc'')) = PyList [PyStr ''hello'']"
  using store_round_trip [of world0 "''conversations''" "PyStr ''abc''" "[PyStr ''hello'']"
     "snd (save_conversation world0 ''conversations'' (PyStr ''abc'') (PyList [PyStr ''hello'']))"]
  by (simp add: save_conversation_def world0_def path_join_def Let_def)

lemma delete_PyStr:
  "delete_conversation w dir (PyStr s) = (b, w') \<Longrightarrow> f = path_join dir (s @ ''.json'') \<Longrightarrow>
     effects w' = effects w @ Fs_exists f # (if files w f = None then [] else [Fs_remove f])
     \<and> (remove_fault w f = None \<longrightarrow> files w' = (files w)(f := None))
     \<and> (files w f = None \<longrightarrow> files w' = files w)"
  by (auto simp: delete_conversation_def Let_def split: if_splits option.splits)

text \<open>
  Claim C8. \<^verbatim>\<open>clear_conversation_for_user\<close> returns the user record and the world as
  they are when the session identifier is absent or None. With an identifier it sets the
  field to None and hands the record to the user-record store as its last action, and a
  second clear changes nothing. With a str identifier the only file operations are the
  existence test and, if the file exists, its removal: the file is gone when
  \<^verbatim>\<open>os.remove\<close> does not raise, and an absent file leaves the file system as it is.
\<close>

theorem clear_conversation:
  "(dict_get u (conversation_key m) = PyNone \<longrightarrow> clear_conversation_for_user m u w = (u, w))
   \<and> (dict_get u1 (conversation_key m) \<noteq> PyNone \<and> clear_conversation_for_user m u1 w1 = (u', w')
        \<longrightarrow> u' = u1(conversation_key m \<mapsto> PyNone)
          \<and> last (effects w') = Save_user u'
          \<and> clear_conversation_for_user m u' w' = (u', w')
          \<and> (\<forall>s f. dict_get u1 (conversation_key m) = PyStr s
                   \<and> f = path_join (conversations_dir m) (s @ ''.json'')
                \<longrightarrow> effects w' = effects w1 @ Fs_exists f
                       # (if files w1 f = None then [] else [Fs_remove f]) @ [Save_user u']
                  \<and> (remove_fault w1 f = None \<longrightarrow> files w' = (files w1)(f := None))
                  \<and> (files w1 f = None \<longrightarrow> files w' = files w1)))"
proof (intro conjI impI)
  assume "dict_get u (conversation_key m) = PyNone"
  then show "clear_conversation_for_user m u w = (u, w)"
    by (simp add: clear_conversation_for_user_def)
next
  assume a: "dict_get u1 (conversation_key m) \<noteq> PyNone \<and> clear_conversation_for_user m u1 w1 = (u', w')"
  obtain b wd where d: "delete_conversation w1 (conversations_dir m) (dict_get u1 (conversation_key m)) = (b, wd)"
    by (cases "delete_conversation w1 (conversations_dir m) (dict_get u1 (conversation_key m))")
  from a have a1: "dict_get u1 (conversation_key m) \<noteq> PyNone"
    and a2: "clear_conversation_for_user m u1 w1 = (u', w')" by simp_all
  from a2 a1 d have u': "u' = u1(conversation_key m \<mapsto> PyNone)" and w': "w' = emit (Save_user u') wd"
    by (auto simp: clear_conversation_for_user_def Let_def)
  show "u' = u1(conversation_key m \<mapsto> PyNone)" by (rule u')
  show "last (effects w') = Save_user u'" by (simp add: w')
  show "clear_conversation_for_user m u' w' = (u', w')"
    by (simp add: clear_conversation_for_user_def u' dict_get_def)
  show "\<forall>s f. dict_get u1 (conversation_key m) = PyStr s
                   \<and> f = path_join (conversations_dir m) (s @ ''.json'')
                \<longrightarrow> effects w' = effects w1 @ Fs_exists f
                       # (if files w1 f = None then [] else [Fs_remove f]) @ [Save_user u']
                  \<and> (remove_fault w1 f = None \<longrightarrow> files w' = (files w1)(f := None))
                  \<and> (files w1 f = None \<longrightarrow> files w' = files w1)"
  proof (intro allI impI)
    fix s f
    assume s: "dict_get u1 (conversation_key m) = PyStr s
                   \<and> f = path_join (conversations_dir m) (s @ ''.json'')"
    with d have "delete_conversation w1 (conversations_dir m) (PyStr s) = (b, wd)" by simp
    from delete_PyStr [OF this] s
    show "effects w' = effects w1 @ Fs_exists f
                       # (if files w1 f = None then [] else [Fs_remove f]) @ [Save_user u']
                  \<and> (remove_fault w1 f = None \<longrightarrow> files w' = (files w1)(f := None))
                  \<and> (files w1 f = None \<longrightarrow> files w' = files w1)"
      by (simp add: w')
  qed
qed

theorem clear_conversation_witness:
  "clear_conversation_for_user module0 Map.empty world0 = (Map.empty, world0)
   \<and> fst (clear_conversation_for_user module0 user1 world1)
       = user1(''gemini_conversation_id'' \<mapsto> PyNone)
   \<and> effects (snd (clear_conversation_for_user module0 user1 world1))
       = [Fs_exists ''conversations/abc.json'', Fs_remove ''conversations/abc.json'',
          Save_user (user1(''gemini_conversation_id'' \<mapsto> PyNone))]
   \<and> files (snd (clear_conversation_for_user module0 user1 world1)) ''conversations/abc.json''
       = None"
  using clear_conversation [of Map.empty module0 world0 user1 world1
      "fst (clear_conversation_for_user module0 user1 world1)"
      "snd (clear_conversation_for_user module0 user1 world1)"]
  by (simp add: sample_defs dict_get_def conversation_key_def path_join_def)

section \<open>The stages of a request\<close>






lemma chunk_loop_cancelled:
  "cancel_requested m \<Longrightarrow> chunk_loop m r w (c # cs) = (Broke, 0, m, r, w)"
  by simp









lemma request_user_frame: "r1 = r\<lparr>user := u\<rparr> \<Longrightarrow> response r1 = response r"
  by simp














lemma cool_down_spacing:
  assumes "0 \<le> oversleep e" "0 \<le> lag_stamp e"
    and "cool_down m e w = (x, m1, w1)"
  shows "(x = None \<longrightarrow> last_request_time m + cooldown_seconds m \<le> last_request_time m1
            \<and> last_request_time m1 = clock w1)
    \<and> (\<forall>ex. x = Some ex \<longrightarrow> ex = ValueError \<and> m1 = m
            \<and> clock w \<le> last_request_time m + cooldown_seconds m
            \<and> last_request_time m + cooldown_seconds m < clock w + lag_wait e + lag_sleep e)"
  using assms by (auto simp: cool_down_def Let_def split: if_splits)


section \<open>Rejection of a module that is not enabled\<close>

text \<open>
  Claim C2, as stated, fails. The message of lines 144 to 146 is computed before the
  flags are written and outside the \<^verbatim>\<open>try\<close> statement. For a user whose language
  index has no entry in the message table the subscript raises IndexError: the call
  raises, the response and the error flag are as before, and a processing flag that was
  set stays set.
\<close>

theorem rejected_without_message_counterexample:
  "\<not> enabled module_off \<and> processing_flag module_off
   \<and> process_request module_off env0 request_third world0
     = (Raised IndexError, module_off, request_third,
        world0\<lparr>logged := [Log ERROR [Lit ''Google AI module not initialized!'']]\<rparr>)"
  by (simp add: sample_defs process_request_def localized_error_def logging_def Let_def)

text \<open>
  Claim C2, amended. When the module is not enabled, the user's language (0 when the
  record has none) is an index of the message table, the entry of that language has a
  \<^verbatim>\<open>response_error\<close> template and \<^verbatim>\<open>str.format\<close> accepts it, then
  \<^verbatim>\<open>process_request\<close> returns normally: the response is that template of that
  language, line breaks replaced and formatted with the fixed text, the error flag is
  set, the processing flag is false, and the world changes only by one logged error: no
  event (no model call, no file operation, no sleep) is added and the clock is not read.
\<close>

theorem rejected_when_not_enabled:
  assumes "\<not> enabled m"
    and "user r ''lang'' = Some (PyInt (int i)) \<or> (user r ''lang'' = None \<and> i = 0)"
    and "i < length (messages m)"
    and "(messages m ! i) ''response_error'' = Some t"
    and "str_format e (replace_newlines t) ''Google AI module not initialized!'' = Inr txt"
  shows "process_request m e r w =
           (Returned, m\<lparr>processing_flag := False\<rparr>, r\<lparr>response := txt, error := True\<rparr>,
            w\<lparr>logged := logged w @ [Log ERROR [Lit ''Google AI module not initialized!'']]\<rparr>)"
proof -
  from assms(2,3)
  have "py_index (messages m) (case user r ''lang'' of None \<Rightarrow> PyInt 0 | Some v \<Rightarrow> v)
          = Inr (messages m ! i)"
    by auto
  with assms(1,4,5) show ?thesis
    by (simp add: process_request_def localized_error_def Let_def logging_def)
qed

theorem rejected_when_not_enabled_witness:
  "\<not> enabled module_off
   \<and> user request_second ''lang'' = Some (PyInt (int 1))
   \<and> (messages module_off ! 1) ''response_error''
       = Some (''Fehler: {}'' @ [CHR 0x5C, CHR ''n''] @ ''Bitte erneut versuchen'')
   \<and> process_request module_off env0 request_second world0 =
     (Returned, module_off\<lparr>processing_flag := False\<rparr>,
      request_second\<lparr>response := ''Fehler: Google AI module not initialized!'' @ [CHR 0x0A]
                                   @ ''Bitte erneut versuchen'',
                     error := True\<rparr>,
      world0\<lparr>logged := [Log ERROR [Lit ''Google AI module not initialized!'']]\<rparr>)"
  using rejected_when_not_enabled [of module_off request_second 1
      "''Fehler: {}'' @ [CHR 0x5C, CHR ''n''] @ ''Bitte erneut versuchen''" env0
      "''Fehler: Google AI module not initialized!'' @ [CHR 0x0A] @ ''Bitte erneut versuchen''"
      world0]
  by (simp add: sample_defs)

section \<open>Exit paths of an enabled module\<close>








section \<open>Cooldown\<close>


section \<open>Cancellation\<close>



section \<open>A save that fails\<close>



section \<open>A cancellation flag that stays set\<close>





end
